theory Spec2Isabelle
  imports Complex_Main
begin

section \<open>Python values\<close>

subsection \<open>Exceptions\<close>

text \<open>
  The agent never raises on its own; every exception comes out of a library call or out of
  the generated code. Both handlers of the agent are \<^verbatim>\<open>except Exception\<close>, so all that matters
  about an exception is whether it is an instance of \<^verbatim>\<open>Exception\<close> (caught) or only of
  \<^verbatim>\<open>BaseException\<close> (\<^verbatim>\<open>SystemExit\<close>, \<^verbatim>\<open>KeyboardInterrupt\<close>, \<^verbatim>\<open>GeneratorExit\<close>: not caught).
  The string is the text of the exception.
\<close>

datatype exn = Exception string | BaseException string

subsection \<open>Strings\<close>

text \<open>
  A Python \<^verbatim>\<open>str\<close> is modelled as a \<^typ>\<open>string\<close> whose characters are the code points
  below 256. \<^verbatim>\<open>str.strip()\<close> removes the characters for which \<^verbatim>\<open>str.isspace\<close> holds; below
  256 these are 9 to 13, 28 to 32, 133 and 160.
\<close>

definition py_isspace :: "char \<Rightarrow> bool" where
  "py_isspace c \<longleftrightarrow>
     of_char c \<in> {9, 10, 11, 12, 13, 28, 29, 30, 31, 32, 133, 160 :: nat}"

definition py_strip :: "string \<Rightarrow> string" where
  "py_strip s = rev (dropWhile py_isspace (rev (dropWhile py_isspace s)))"

definition startswith :: "string \<Rightarrow> string \<Rightarrow> bool" where
  "startswith s pre \<longleftrightarrow> take (length pre) s = pre"

text \<open>\<^verbatim>\<open>s.find(sub)\<close>: the index of the first occurrence, \<^const>\<open>None\<close> for Python's -1.\<close>

fun py_find :: "string \<Rightarrow> string \<Rightarrow> nat option" where
  "py_find sub [] = (if sub = [] then Some 0 else None)"
| "py_find sub (c # cs) =
     (if startswith (c # cs) sub then Some 0 else map_option Suc (py_find sub cs))"

text \<open>\<^verbatim>\<open>sub in s\<close>.\<close>

definition py_contains :: "string \<Rightarrow> string \<Rightarrow> bool" where
  "py_contains sub s \<longleftrightarrow> py_find sub s \<noteq> None"

text \<open>
  \<^verbatim>\<open>s.split(sep)\<close> for a non-empty separator: the pieces between the occurrences of \<open>sep\<close>,
  found from left to right without overlap. \<open>cur\<close> is the piece being collected.
  (Python raises \<^verbatim>\<open>ValueError\<close> for an empty separator; the agent only passes the two
  literals below.)
\<close>

function split_from :: "string \<Rightarrow> string \<Rightarrow> string \<Rightarrow> string list" where
  "split_from sep cur [] = [cur]"
| "split_from sep cur (c # cs) =
     (if sep \<noteq> [] \<and> startswith (c # cs) sep
      then cur # split_from sep [] (drop (length sep) (c # cs))
      else split_from sep (cur @ [c]) cs)"
  by pat_completeness auto
termination
  by (relation "measure (\<lambda>(sep, cur, s). length s)") auto

definition py_split :: "string \<Rightarrow> string \<Rightarrow> string list" where
  "py_split sep s = split_from sep [] s"

section \<open>Extracting the code from the generator's response\<close>

definition fence :: string where
  "fence = ''```''"

definition fence_python :: string where
  "fence_python = ''```python''"

definition fence_python_nl :: string where
  "fence_python_nl = ''```python'' @ [CHR 0x0A]"

text \<open>
  Lines 92 to 95 of \<^verbatim>\<open>agent.py\<close>:
  \<^verbatim>\<open>
    if "```python" in code:
        code = code.split("```python\n")[1].split("```")[0]
    code = code.strip()
  \<close>
  The index \<^verbatim>\<open>[1]\<close> raises \<^verbatim>\<open>IndexError\<close> when the split has a single piece.
\<close>

definition extract_code :: "string \<Rightarrow> exn + string" where
  "extract_code resp =
     (if py_contains fence_python resp then
        (case py_split fence_python_nl resp of
           _ # p # _ \<Rightarrow>
             (case py_split fence p of
                q # _ \<Rightarrow> Inr (py_strip q)
              | [] \<Rightarrow> Inl (Exception ''IndexError''))
         | _ \<Rightarrow> Inl (Exception ''IndexError''))
      else Inr (py_strip resp))"

text \<open>The response from just behind the marker \<^verbatim>\<open>```python\n\<close> that starts at index \<open>i\<close>.\<close>

definition after_marker :: "nat \<Rightarrow> string \<Rightarrow> string" where
  "after_marker i resp = drop (i + length fence_python_nl) resp"

text \<open>
  The specification's wording, for comparison with \<^const>\<open>extract_code\<close>: a response embeds a
  fenced code block when it holds an opening and a closing fence; the block's content is
  what stands between the end of the opening fence's line and the closing fence.
\<close>

definition spec_first_fenced_block :: "string \<Rightarrow> string option" where
  "spec_first_fenced_block resp =
     (case py_split fence resp of
        _ # blk # _ # _ \<Rightarrow> Some (drop 1 (dropWhile (\<lambda>c. c \<noteq> CHR 0x0A) blk))
      | _ \<Rightarrow> None)"

definition sample_response :: string where
  "sample_response =
     ''Sure:'' @ [CHR 0x0A] @ ''```python'' @ [CHR 0x0A] @ '' x = 1 '' @ [CHR 0x0A]
       @ ''```'' @ '' done''"

definition plain_fence_response :: string where
  "plain_fence_response = ''```'' @ [CHR 0x0A] @ ''x = 1'' @ [CHR 0x0A] @ ''```''"

section \<open>pandas data frames\<close>

text \<open>
  The produced and the reference dataset are pandas data frames. A \<^verbatim>\<open>float64\<close> value is a
  rational, an infinity or the null marker NaN; IEEE equality makes NaN unequal to
  everything, itself included.
\<close>

datatype f64 = Finite rat | PosInf | NegInf | NaN

definition f64_eq :: "f64 \<Rightarrow> f64 \<Rightarrow> bool" where
  "f64_eq x y \<longleftrightarrow> x \<noteq> NaN \<and> y \<noteq> NaN \<and> x = y"

text \<open>The Python objects a cell of an \<^verbatim>\<open>object\<close> column holds, and Python's \<^verbatim>\<open>==\<close> on them.\<close>

datatype pyobj = PyNone | PyStr string | PyBool bool | PyInt int | PyFloat f64

fun py_number :: "pyobj \<Rightarrow> f64 option" where
  "py_number (PyInt i) = Some (Finite (of_int i))"
| "py_number (PyBool b) = Some (Finite (if b then 1 else 0))"
| "py_number (PyFloat x) = Some x"
| "py_number _ = None"

fun py_eq :: "pyobj \<Rightarrow> pyobj \<Rightarrow> bool" where
  "py_eq PyNone PyNone = True"
| "py_eq (PyStr s) (PyStr t) = (s = t)"
| "py_eq x y =
     (case (py_number x, py_number y) of
        (Some a, Some b) \<Rightarrow> f64_eq a b
      | _ \<Rightarrow> False)"

text \<open>The null markers: \<^verbatim>\<open>None\<close> and NaN.\<close>

fun isna :: "pyobj \<Rightarrow> bool" where
  "isna PyNone = True"
| "isna (PyFloat x) = (x = NaN)"
| "isna _ = False"

text \<open>A column is an array of one dtype.\<close>

datatype column =
    Float64 "f64 list"
  | Int64 "int list"
  | Bool "bool list"
  | Object "pyobj list"

datatype dtype = D_float64 | D_int64 | D_bool | D_object

fun dtype_of :: "column \<Rightarrow> dtype" where
  "dtype_of (Float64 _) = D_float64"
| "dtype_of (Int64 _) = D_int64"
| "dtype_of (Bool _) = D_bool"
| "dtype_of (Object _) = D_object"

text \<open>The cells of a column as Python objects.\<close>

fun cells :: "column \<Rightarrow> pyobj list" where
  "cells (Float64 xs) = map PyFloat xs"
| "cells (Int64 xs) = map PyInt xs"
| "cells (Bool xs) = map PyBool xs"
| "cells (Object xs) = xs"

fun take_col :: "nat \<Rightarrow> column \<Rightarrow> column" where
  "take_col n (Float64 xs) = Float64 (take n xs)"
| "take_col n (Int64 xs) = Int64 (take n xs)"
| "take_col n (Bool xs) = Bool (take n xs)"
| "take_col n (Object xs) = Object (take n xs)"

datatype label = L_str string | L_int int

text \<open>A frame: its columns in order, each under its label, and its row index.\<close>

record dataframe =
  df_columns :: "(label \<times> column) list"
  df_index :: "label list"

definition labels :: "dataframe \<Rightarrow> label list" where
  "labels df = map fst (df_columns df)"

definition arrays :: "dataframe \<Rightarrow> column list" where
  "arrays df = map snd (df_columns df)"

definition nrows :: "dataframe \<Rightarrow> nat" where
  "nrows df = length (df_index df)"

text \<open>\<^verbatim>\<open>df.head(n)\<close>.\<close>

definition df_head :: "nat \<Rightarrow> dataframe \<Rightarrow> dataframe" where
  "df_head n df =
     \<lparr>df_columns = map (\<lambda>(l, c). (l, take_col n c)) (df_columns df),
      df_index = take n (df_index df)\<rparr>"

text \<open>\<^verbatim>\<open>df.reset_index(drop=True, inplace=True)\<close>: the index becomes 0, 1, ..., n - 1.\<close>

definition reset_index :: "dataframe \<Rightarrow> dataframe" where
  "reset_index df = df\<lparr>df_index := map (\<lambda>i. L_int (int i)) [0..<nrows df]\<rparr>"

text \<open>
  \<^verbatim>\<open>DataFrame.equals\<close>, as pandas implements it: both axes are compared as indexes, then
  the arrays are compared column by column. Two arrays of different dtype are unequal
  (\<^verbatim>\<open>array_equals\<close>); arrays of one dtype are compared element by element, float arrays by
  \<^verbatim>\<open>(left == right) | (isnan(left) & isnan(right))\<close>, integer and boolean arrays by
  \<^verbatim>\<open>==\<close>, object arrays by Python's \<^verbatim>\<open>==\<close> or both elements being null
  (\<^verbatim>\<open>array_equivalent\<close>).
\<close>

fun array_equivalent :: "column \<Rightarrow> column \<Rightarrow> bool" where
  "array_equivalent (Float64 xs) (Float64 ys) =
     list_all2 (\<lambda>x y. f64_eq x y \<or> (x = NaN \<and> y = NaN)) xs ys"
| "array_equivalent (Int64 xs) (Int64 ys) = (xs = ys)"
| "array_equivalent (Bool xs) (Bool ys) = (xs = ys)"
| "array_equivalent (Object xs) (Object ys) =
     list_all2 (\<lambda>x y. py_eq x y \<or> (isna x \<and> isna y)) xs ys"
| "array_equivalent _ _ = False"

definition array_equals :: "column \<Rightarrow> column \<Rightarrow> bool" where
  "array_equals l r = (if dtype_of l \<noteq> dtype_of r then False else array_equivalent l r)"

definition df_equals :: "dataframe \<Rightarrow> dataframe \<Rightarrow> bool" where
  "df_equals a b \<longleftrightarrow>
     labels a = labels b \<and> df_index a = df_index b \<and>
     list_all2 array_equals (arrays a) (arrays b)"

text \<open>
  \<^verbatim>\<open>df[name]\<close> for reading: \<^verbatim>\<open>KeyError\<close> when no column has the label; with the label
  on several columns the selection is a frame, which \<^verbatim>\<open>pd.to_numeric\<close> rejects with a
  \<^verbatim>\<open>TypeError\<close>.
\<close>

definition get_column :: "dataframe \<Rightarrow> string \<Rightarrow> exn + column" where
  "get_column df name =
     (case filter (\<lambda>(l, c). l = L_str name) (df_columns df) of
        [] \<Rightarrow> Inl (Exception ''KeyError'')
      | [(l, c)] \<Rightarrow> Inr c
      | _ \<Rightarrow> Inl (Exception ''TypeError''))"

text \<open>\<^verbatim>\<open>df[name] = col\<close> for an existing label: the column is replaced in place.\<close>

definition set_column :: "dataframe \<Rightarrow> string \<Rightarrow> column \<Rightarrow> dataframe" where
  "set_column df name col =
     df\<lparr>df_columns := map (\<lambda>(l, c). if l = L_str name then (l, col) else (l, c))
                          (df_columns df)\<rparr>"

text \<open>
  The specification's wording of a match, for comparison with \<^const>\<open>df_equals\<close>: a null
  marker equals a null marker, and otherwise cells are equal by value.
\<close>

definition cell_equal :: "pyobj \<Rightarrow> pyobj \<Rightarrow> bool" where
  "cell_equal x y \<longleftrightarrow> py_eq x y \<or> (isna x \<and> isna y)"

definition spec_same_values :: "dataframe \<Rightarrow> dataframe \<Rightarrow> bool" where
  "spec_same_values a b \<longleftrightarrow>
     labels a = labels b \<and> nrows a = nrows b \<and>
     list_all2 (\<lambda>c d. list_all2 cell_equal (cells c) (cells d)) (arrays a) (arrays b)"


section \<open>The world of the agent\<close>

text \<open>
  What \<^verbatim>\<open>module.parse(path)\<close> may return: a frame, a series (which has \<^verbatim>\<open>reset_index\<close>
  and \<^verbatim>\<open>equals\<close> but never equals a frame), or a value without \<^verbatim>\<open>reset_index\<close>.
\<close>

datatype pyval = Frame dataframe | Series | Other

type_synonym path = string

text \<open>
  A module namespace after \<^verbatim>\<open>exec(code, module.__dict__)\<close>: its \<^verbatim>\<open>__name__\<close> and its
  \<^verbatim>\<open>parse\<close> attribute, if the code defined one.
\<close>

record namespace =
  ns_name :: string
  ns_parse :: "(path \<Rightarrow> exn + pyval) option"

record prompt =
  prompt_target :: string
  prompt_preview :: dataframe

text \<open>
  The collaborators are opaque. Each is a function the theorems quantify over:
  \<^item> \<open>configure\<close>: \<^verbatim>\<open>genai.configure(api_key=...)\<close>, given the value of \<^verbatim>\<open>os.getenv\<close>;
  \<^item> \<open>generate_content\<close>: the generator's answer (\<^verbatim>\<open>response.text\<close>) to the prompt of the
    attempt with the given ordinal, or the exception the call raises;
  \<^item> \<open>exec_code\<close>: what \<^verbatim>\<open>exec(code, module.__dict__)\<close> does for the module of the given
    name: it raises, or it leaves a namespace;
  \<^item> \<open>read_csv\<close>: \<^verbatim>\<open>pd.read_csv(path)\<close>;
  \<^item> \<open>to_numeric\<close>: \<^verbatim>\<open>pd.to_numeric(column, errors='coerce')\<close>;
  \<^item> \<open>urandom_hex\<close>: \<^verbatim>\<open>os.urandom(4).hex()\<close> at its n-th call.
  The generated code's own effects on files and on the interpreter are outside the model.
\<close>

record env =
  configure :: "string option \<Rightarrow> exn + unit"
  generate_content :: "nat \<Rightarrow> prompt \<Rightarrow> exn + string"
  exec_code :: "string \<Rightarrow> string \<Rightarrow> exn + (path \<Rightarrow> exn + pyval) option"
  read_csv :: "path \<Rightarrow> exn + dataframe"
  to_numeric :: "column \<Rightarrow> column"
  urandom_hex :: "nat \<Rightarrow> string"

datatype content = Text string | Csv dataframe

datatype node = Dir | File content

text \<open>The texts the harness returns (lines 58, 67, 76 and 78).\<close>

datatype message =
    Empty_code
  | Execution_failed string
  | Data_mismatch
  | Success_matched

text \<open>The log records, one constructor per logging call of \<^verbatim>\<open>agent.py\<close>.\<close>

datatype log_record =
    Error_configure string
  | Error_missing_files path path
  | Info_starting string
  | Info_attempt nat nat
  | Info_message message
  | Info_saved path
  | Warning_attempt_failed nat message
  | Error_unexpected nat string
  | Warning_all_failed

text \<open>
  The state the agent works on: the file system, the files the agent has written (oldest
  first), the log, the interpreter's module table \<^verbatim>\<open>sys.modules\<close> (a module object is an
  address of the heap), the next free address, and how often \<^verbatim>\<open>os.urandom\<close> was called.
  Creating directories and writing files is taken to succeed.
\<close>

record world =
  fs :: "path \<rightharpoonup> node"
  journal :: "path list"
  log :: "log_record list"
  sys_modules :: "string \<rightharpoonup> nat"
  heap :: "nat \<rightharpoonup> namespace"
  next_id :: nat
  urandom_calls :: nat

definition logging :: "log_record \<Rightarrow> world \<Rightarrow> world" where
  "logging r w = w\<lparr>log := log w @ [r]\<rparr>"

definition path_exists :: "world \<Rightarrow> path \<Rightarrow> bool" where
  "path_exists w p \<longleftrightarrow> fs w p \<noteq> None"

text \<open>
  \<^verbatim>\<open>Path.mkdir(exist_ok=True)\<close> and \<^verbatim>\<open>Path.touch()\<close>: a path that exists is left as it is.
  (The \<^verbatim>\<open>FileExistsError\<close> of \<^verbatim>\<open>mkdir\<close> for an existing regular file is not modelled.)
\<close>

definition mkdir_exist_ok :: "path \<Rightarrow> world \<Rightarrow> world" where
  "mkdir_exist_ok p w = (if fs w p = None then w\<lparr>fs := (fs w)(p \<mapsto> Dir)\<rparr> else w)"

definition touch :: "path \<Rightarrow> world \<Rightarrow> world" where
  "touch p w = (if fs w p = None then w\<lparr>fs := (fs w)(p \<mapsto> File (Text []))\<rparr> else w)"

definition write_file :: "path \<Rightarrow> content \<Rightarrow> world \<Rightarrow> world" where
  "write_file p c w = w\<lparr>fs := (fs w)(p \<mapsto> File c), journal := journal w @ [p]\<rparr>"

text \<open>
  \<^verbatim>\<open>Path(d) / f\<close> for a relative \<open>f\<close>; paths are kept as the strings they print as, the
  target being a plain name.
\<close>

definition joinpath :: "path \<Rightarrow> string \<Rightarrow> path" where
  "joinpath d f = d @ ''/'' @ f"

section \<open>The agent\<close>

definition MAX_ATTEMPTS :: nat where
  "MAX_ATTEMPTS = 3"

text \<open>
  Lines 12 to 17: the start of the module. \<^verbatim>\<open>os.getenv\<close> gives \<^verbatim>\<open>None\<close> for an absent
  variable, and that value is handed to \<^verbatim>\<open>genai.configure\<close>; the process exits with
  status 1 only when the call raises an \<^verbatim>\<open>Exception\<close>.
\<close>

datatype startup = Configured | Exited nat

definition startup :: "env \<Rightarrow> (string \<rightharpoonup> string) \<Rightarrow> world \<Rightarrow> (exn + startup) \<times> world" where
  "startup e environ w =
     (case configure e (environ ''GOOGLE_API_KEY'') of
        Inr _ \<Rightarrow> (Inr Configured, w)
      | Inl (Exception x) \<Rightarrow> (Inr (Exited 1), logging (Error_configure x) w)
      | Inl (BaseException x) \<Rightarrow> (Inl (BaseException x), w))"

record agent =
  target :: string
  data_dir :: path
  output_dir :: path
  parser_dir :: path
  pdf_path :: path
  csv_path :: path

text \<open>Lines 20 to 30: \<^verbatim>\<open>PDFParserAgent.__init__\<close>.\<close>

definition init :: "string \<Rightarrow> world \<Rightarrow> agent \<times> world" where
  "init t w =
     (let a = \<lparr>target = t,
               data_dir = ''data/'' @ t,
               output_dir = ''output'',
               parser_dir = ''custom_parsers'',
               pdf_path = joinpath (''data/'' @ t) (t @ ''_sample.pdf''),
               csv_path = joinpath (''data/'' @ t) (t @ ''_sample.csv'')\<rparr>;
          w1 = mkdir_exist_ok (output_dir a) w;
          w2 = mkdir_exist_ok (parser_dir a) w1;
          w3 = touch (joinpath (parser_dir a) ''__init__.py'') w2
      in (a, w3))"

text \<open>Lines 31 to 35.\<close>

definition validate_paths :: "agent \<Rightarrow> world \<Rightarrow> bool \<times> world" where
  "validate_paths a w =
     (if \<not> path_exists w (pdf_path a) \<or> \<not> path_exists w (csv_path a)
      then (False, logging (Error_missing_files (pdf_path a) (csv_path a)) w)
      else (True, w))"

text \<open>Lines 36 to 55: the prompt embeds the target and the first five reference rows.\<close>

definition generate_prompt :: "agent \<Rightarrow> env \<Rightarrow> exn + prompt" where
  "generate_prompt a e =
     (case read_csv e (csv_path a) of
        Inl x \<Rightarrow> Inl x
      | Inr expected_df \<Rightarrow>
          Inr \<lparr>prompt_target = target a, prompt_preview = df_head 5 expected_df\<rparr>)"

definition mod_name :: "agent \<Rightarrow> string \<Rightarrow> string" where
  "mod_name a hex = ''custom_parsers.'' @ target a @ ''_parser_'' @ hex"

text \<open>
  Lines 60 to 65, the body of the \<^verbatim>\<open>try\<close>: a new module object under a random name, the
  code executed in its namespace, the module entered into \<^verbatim>\<open>sys.modules\<close>, and
  \<^verbatim>\<open>parse\<close> called (\<^verbatim>\<open>AttributeError\<close> when the code defined none).
\<close>

definition load_and_parse :: "agent \<Rightarrow> env \<Rightarrow> string \<Rightarrow> world \<Rightarrow> (exn + pyval) \<times> world" where
  "load_and_parse a e code w =
     (let name = mod_name a (urandom_hex e (urandom_calls w));
          w1 = w\<lparr>urandom_calls := urandom_calls w + 1\<rparr>;
          m = next_id w1;
          w2 = w1\<lparr>heap := (heap w1)(m \<mapsto> \<lparr>ns_name = name, ns_parse = None\<rparr>),
                  next_id := m + 1\<rparr>
      in case exec_code e name code of
           Inl x \<Rightarrow> (Inl x, w2)
         | Inr f \<Rightarrow>
             (let w3 = w2\<lparr>heap := (heap w2)(m \<mapsto> \<lparr>ns_name = name, ns_parse = f\<rparr>)\<rparr>;
                  w4 = w3\<lparr>sys_modules := (sys_modules w3)(name \<mapsto> m)\<rparr>
              in case f of
                   None \<Rightarrow> (Inl (Exception ''AttributeError''), w4)
                 | Some parse \<Rightarrow> (parse (pdf_path a), w4)))"

text \<open>Lines 69 and 70: the three amount columns of the reference, coerced in turn.\<close>

fun coerce_columns :: "env \<Rightarrow> string list \<Rightarrow> dataframe \<Rightarrow> exn + dataframe" where
  "coerce_columns e [] df = Inr df"
| "coerce_columns e (c # cs) df =
     (case get_column df c of
        Inl x \<Rightarrow> Inl x
      | Inr col \<Rightarrow> coerce_columns e cs (set_column df c (to_numeric e col)))"

definition amount_columns :: "string list" where
  "amount_columns = [''Debit Amt'', ''Credit Amt'', ''Balance'']"

text \<open>Lines 68 to 70: the reference as it is compared.\<close>

definition load_reference :: "agent \<Rightarrow> env \<Rightarrow> exn + dataframe" where
  "load_reference a e =
     (case read_csv e (csv_path a) of
        Inl x \<Rightarrow> Inl x
      | Inr expected_df \<Rightarrow> coerce_columns e amount_columns expected_df)"

definition output_path :: "agent \<Rightarrow> path" where
  "output_path a = joinpath (output_dir a) (target a @ ''_output.csv'')"

text \<open>
  Lines 68 to 78, the validation: the reference is loaded and coerced, both indexes are
  reset, and \<^verbatim>\<open>equals\<close> decides. A match exports the produced frame.
\<close>

definition test_output ::
  "agent \<Rightarrow> env \<Rightarrow> pyval \<Rightarrow> world \<Rightarrow> (exn + bool \<times> message) \<times> world" where
  "test_output a e actual w =
     (case load_reference a e of
        Inl x \<Rightarrow> (Inl x, w)
      | Inr expected_df \<Rightarrow>
          (case actual of
             Other \<Rightarrow> (Inl (Exception ''AttributeError''), w)
           | Series \<Rightarrow> (Inr (False, Data_mismatch), w)
           | Frame actual_df \<Rightarrow>
               (if df_equals (reset_index actual_df) (reset_index expected_df)
                then (Inr (True, Success_matched),
                      write_file (output_path a) (Csv (reset_index actual_df)) w)
                else (Inr (False, Data_mismatch), w))))"

text \<open>Lines 56 to 78: \<^verbatim>\<open>_execute_and_test_code\<close>.\<close>

definition execute_and_test_code ::
  "agent \<Rightarrow> env \<Rightarrow> string \<Rightarrow> world \<Rightarrow> (exn + bool \<times> message) \<times> world" where
  "execute_and_test_code a e code w =
     (if code = [] \<or> py_strip code = [] then (Inr (False, Empty_code), w)
      else
        (case load_and_parse a e code w of
           (Inl (Exception x), w1) \<Rightarrow> (Inr (False, Execution_failed x), w1)
         | (Inl (BaseException x), w1) \<Rightarrow> (Inl (BaseException x), w1)
         | (Inr actual, w1) \<Rightarrow> test_output a e actual w1))"

definition parser_path :: "agent \<Rightarrow> path" where
  "parser_path a = joinpath (parser_dir a) (target a @ ''_parser.py'')"

text \<open>Lines 79 to 82.\<close>

definition save_parser :: "agent \<Rightarrow> string \<Rightarrow> world \<Rightarrow> world" where
  "save_parser a code w =
     logging (Info_saved (parser_path a)) (write_file (parser_path a) (Text code) w)"

text \<open>
  Lines 90 to 102, the body of the \<^verbatim>\<open>try\<close> of one attempt. The result \<^const>\<open>True\<close> stands for
  the \<^verbatim>\<open>return\<close> of line 100, \<^const>\<open>False\<close> for falling through to the next ordinal.
\<close>

definition attempt_body ::
  "agent \<Rightarrow> env \<Rightarrow> nat \<Rightarrow> world \<Rightarrow> (exn + bool) \<times> world" where
  "attempt_body a e k w =
     (case generate_prompt a e of
        Inl x \<Rightarrow> (Inl x, w)
      | Inr p \<Rightarrow>
          (case generate_content e k p of
             Inl x \<Rightarrow> (Inl x, w)
           | Inr resp \<Rightarrow>
               (case extract_code resp of
                  Inl x \<Rightarrow> (Inl x, w)
                | Inr code \<Rightarrow>
                    (case execute_and_test_code a e code w of
                       (Inl x, w1) \<Rightarrow> (Inl x, w1)
                     | (Inr (True, msg), w1) \<Rightarrow>
                         (Inr True, save_parser a code (logging (Info_message msg) w1))
                     | (Inr (False, msg), w1) \<Rightarrow>
                         (Inr False, logging (Warning_attempt_failed k msg) w1)))))"

text \<open>Lines 88 to 104: one iteration, with the handler of line 103.\<close>

definition attempt :: "agent \<Rightarrow> env \<Rightarrow> nat \<Rightarrow> world \<Rightarrow> (exn + bool) \<times> world" where
  "attempt a e k w =
     (case attempt_body a e k (logging (Info_attempt k MAX_ATTEMPTS) w) of
        (Inl (Exception x), w1) \<Rightarrow> (Inr False, logging (Error_unexpected k x) w1)
      | (Inl (BaseException x), w1) \<Rightarrow> (Inl (BaseException x), w1)
      | (Inr b, w1) \<Rightarrow> (Inr b, w1))"

text \<open>How \<^verbatim>\<open>run\<close> ends: the \<^verbatim>\<open>return\<close> of line 85, that of line 100, or the end of line 105.\<close>

datatype outcome = Paths_missing | Parser_saved | Exhausted

text \<open>Lines 87 to 105: the loop over the ordinals.\<close>

fun run_loop :: "agent \<Rightarrow> env \<Rightarrow> nat list \<Rightarrow> world \<Rightarrow> (exn + outcome) \<times> world" where
  "run_loop a e [] w = (Inr Exhausted, logging Warning_all_failed w)"
| "run_loop a e (k # ks) w =
     (case attempt a e k w of
        (Inl x, w1) \<Rightarrow> (Inl x, w1)
      | (Inr True, w1) \<Rightarrow> (Inr Parser_saved, w1)
      | (Inr False, w1) \<Rightarrow> run_loop a e ks w1)"

text \<open>Lines 83 to 105: \<^verbatim>\<open>run\<close>.\<close>

definition run :: "agent \<Rightarrow> env \<Rightarrow> world \<Rightarrow> (exn + outcome) \<times> world" where
  "run a e w =
     (case validate_paths a w of
        (False, w1) \<Rightarrow> (Inr Paths_missing, w1)
      | (True, w1) \<Rightarrow>
          run_loop a e [1..<MAX_ATTEMPTS + 1] (logging (Info_starting (target a)) w1))"

text \<open>
  Lines 106 to 112: \<^verbatim>\<open>main\<close>, given \<^verbatim>\<open>sys.argv\<close>. A malformed command line prints the
  usage text (not modelled) and exits with status 1.
\<close>

datatype finish = Usage_exit nat | Startup_exit nat | Ran outcome

definition main :: "env \<Rightarrow> string list \<Rightarrow> world \<Rightarrow> (exn + finish) \<times> world" where
  "main e argv w =
     (if length argv < 3 \<or> argv ! 1 \<noteq> ''--target'' then (Inr (Usage_exit 1), w)
      else
        (let (a, w1) = init (argv ! 2) w
         in case run a e w1 of
              (Inl x, w2) \<Rightarrow> (Inl x, w2)
            | (Inr r, w2) \<Rightarrow> (Inr (Ran r), w2)))"

text \<open>The script: the module's start, then \<^verbatim>\<open>main\<close>.\<close>

definition script ::
  "env \<Rightarrow> (string \<rightharpoonup> string) \<Rightarrow> string list \<Rightarrow> world \<Rightarrow> (exn + finish) \<times> world" where
  "script e environ argv w =
     (case startup e environ w of
        (Inl x, w1) \<Rightarrow> (Inl x, w1)
      | (Inr (Exited n), w1) \<Rightarrow> (Inr (Startup_exit n), w1)
      | (Inr Configured, w1) \<Rightarrow> main e argv w1)"

subsection \<open>Reading a log\<close>

fun attempt_ordinal :: "log_record \<Rightarrow> nat option" where
  "attempt_ordinal (Info_attempt k n) = Some k"
| "attempt_ordinal _ = None"

text \<open>The ordinals of the attempts a log shows, in order.\<close>

definition attempts_logged :: "log_record list \<Rightarrow> nat list" where
  "attempts_logged l = List.map_filter attempt_ordinal l"

subsection \<open>Reading a run\<close>







section \<open>Sample inputs\<close>

definition empty_world :: world where
  "empty_world =
     \<lparr>fs = Map.empty, journal = [], log = [], sys_modules = Map.empty, heap = Map.empty,
      next_id = 0, urandom_calls = 0\<rparr>"

definition icici :: agent where
  "icici = fst (init ''icici'' empty_world)"

text \<open>An environment whose generator cannot be reached and whose reference is unreadable.\<close>

definition offline_env :: env where
  "offline_env =
     \<lparr>configure = (\<lambda>_. Inr ()),
      generate_content = (\<lambda>_ _. Inl (Exception ''DefaultCredentialsError'')),
      exec_code = (\<lambda>_ _. Inr None),
      read_csv = (\<lambda>_. Inl (Exception ''FileNotFoundError'')),
      to_numeric = (\<lambda>c. c),
      urandom_hex = (\<lambda>_. ''00000000'')\<rparr>"

text \<open>A world that holds the two input files and nothing else.\<close>

definition inputs_world :: world where
  "inputs_world =
     empty_world\<lparr>fs := [''data/icici/icici_sample.pdf'' \<mapsto> File (Text ''%PDF''),
                         ''data/icici/icici_sample.csv'' \<mapsto> File (Text ''Date,...'')]\<rparr>"

text \<open>The same world after the agent has been constructed in it.\<close>

definition ready_world :: world where
  "ready_world = snd (init ''icici'' inputs_world)"

text \<open>The reference of the specification's scenario: one row, the credit amount null.\<close>

definition sample_reference :: dataframe where
  "sample_reference =
     \<lparr>df_columns =
        [(L_str ''Date'', Object [PyStr ''01-01-2024'']),
         (L_str ''Description'', Object [PyStr ''Coffee'']),
         (L_str ''Debit Amt'', Float64 [Finite 5]),
         (L_str ''Credit Amt'', Float64 [NaN]),
         (L_str ''Balance'', Float64 [Finite 95])],
      df_index = [L_int 0]\<rparr>"

text \<open>
  Environments: one whose generated parser reproduces the reference, one whose generator
  fails at the first attempt, and one whose generated code calls \<^verbatim>\<open>sys.exit\<close> when loaded.
\<close>

definition matching_env :: env where
  "matching_env =
     \<lparr>configure = (\<lambda>_. Inr ()),
      generate_content = (\<lambda>_ _. Inr ''import pandas as pd''),
      exec_code = (\<lambda>_ _. Inr (Some (\<lambda>_. Inr (Frame sample_reference)))),
      read_csv = (\<lambda>_. Inr sample_reference),
      to_numeric = (\<lambda>c. c),
      urandom_hex = (\<lambda>n. if n = 0 then ''9f3a01bc'' else ''00c0ffee'')\<rparr>"




text \<open>The sample reference with its balance column produced as integers.\<close>

definition int_balance_frame :: dataframe where
  "int_balance_frame =
     \<lparr>df_columns =
        [(L_str ''Date'', Object [PyStr ''01-01-2024'']),
         (L_str ''Description'', Object [PyStr ''Coffee'']),
         (L_str ''Debit Amt'', Float64 [Finite 5]),
         (L_str ''Credit Amt'', Float64 [NaN]),
         (L_str ''Balance'', Int64 [95])],
      df_index = [L_int 0]\<rparr>"

text \<open>A reference of two rows, and the same rows in the other order.\<close>

definition two_rows :: dataframe where
  "two_rows =
     \<lparr>df_columns =
        [(L_str ''Date'', Object [PyStr ''01-01-2024'', PyStr ''02-01-2024'']),
         (L_str ''Balance'', Float64 [Finite 95, Finite 90])],
      df_index = [L_int 0, L_int 1]\<rparr>"

definition two_rows_swapped :: dataframe where
  "two_rows_swapped =
     \<lparr>df_columns =
        [(L_str ''Date'', Object [PyStr ''02-01-2024'', PyStr ''01-01-2024'']),
         (L_str ''Balance'', Float64 [Finite 90, Finite 95])],
      df_index = [L_int 1, L_int 0]\<rparr>"

text \<open>
  No credential: \<^verbatim>\<open>genai.configure\<close> accepts the absent key without raising, as the client
  library does (it checks the key only when a request is made), and every request of the
  generator fails.
\<close>

definition no_key_env :: env where
  "no_key_env =
     matching_env\<lparr>configure := (\<lambda>_. Inr ()),
                   generate_content := (\<lambda>_ _. Inl (Exception ''DefaultCredentialsError''))\<rparr>"

section \<open>Properties of the string functions\<close>

lemma split_from_none:
  "sep \<noteq> [] \<Longrightarrow> py_find sep s = None \<Longrightarrow> split_from sep cur s = [cur @ s]"
  by (induction s arbitrary: cur) (auto split: if_splits)

lemma split_from_some:
  "sep \<noteq> [] \<Longrightarrow> py_find sep s = Some i \<Longrightarrow>
   split_from sep cur s = (cur @ take i s) # split_from sep [] (drop (i + length sep) s)"
proof (induction s arbitrary: cur i)
  case Nil
  then show ?case by simp
next
  case (Cons c cs)
  show ?case
  proof (cases "startswith (c # cs) sep")
    case True
    with Cons.prems show ?thesis by simp
  next
    case False
    with Cons.prems obtain i' where i': "py_find sep cs = Some i'" "i = Suc i'"
      by auto
    from Cons.IH [OF Cons.prems(1) i'(1), of "cur @ [c]"] False i'(2)
    show ?thesis by simp
  qed
qed

lemma first_piece:
  assumes "sep \<noteq> []" "py_find sep s = Some j"
  shows "\<exists>ps. split_from sep [] s = take j s # ps"
  using split_from_some [OF assms, of "[]"] by simp

lemma startswith_append: "startswith s (a @ b) \<Longrightarrow> startswith s a"
  unfolding startswith_def
  by (metis append_eq_conv_conj take_take append_take_drop_id)

lemma find_some_of_longer:
  "py_find (a @ b) s = Some i \<Longrightarrow> \<exists>j. py_find a s = Some j \<and> j \<le> i"
proof (induction s arbitrary: i)
  case Nil
  then show ?case by (auto split: if_splits)
next
  case (Cons c cs)
  show ?case
  proof (cases "startswith (c # cs) a")
    case True
    then show ?thesis by simp
  next
    case False
    then have "\<not> startswith (c # cs) (a @ b)"
      using startswith_append by blast
    with Cons.prems obtain i' where i': "py_find (a @ b) cs = Some i'" "i = Suc i'"
      by auto
    from Cons.IH [OF i'(1)] False i'(2) show ?thesis by auto
  qed
qed

lemma find_none_of_shorter:
  "py_find a s = None \<Longrightarrow> py_find (a @ b) s = None"
  using find_some_of_longer [of a b s] by (cases "py_find (a @ b) s") auto

lemma startswith_take:
  "length sub \<le> k \<Longrightarrow> startswith (take k s) sub \<longleftrightarrow> startswith s sub"
  by (simp add: startswith_def min_def)

lemma startswith_take_imp:
  "sub \<noteq> [] \<Longrightarrow> startswith (take k s) sub \<Longrightarrow> startswith s sub"
  unfolding startswith_def
  by (metis append_take_drop_id append_eq_conv_conj take_take)

lemma find_take:
  "sub \<noteq> [] \<Longrightarrow> py_find sub s = Some j \<Longrightarrow> j + length sub \<le> k \<Longrightarrow>
   py_find sub (take k s) = Some j"
proof (induction s arbitrary: j k)
  case Nil
  then show ?case by simp
next
  case (Cons c cs)
  from Cons.prems obtain k' where k': "k = Suc k'"
    by (cases k) auto
  show ?case
  proof (cases "startswith (c # cs) sub")
    case True
    with Cons.prems have "j = 0" by simp
    with Cons.prems True startswith_take [of sub k "c # cs"] k' show ?thesis
      by simp
  next
    case False
    with Cons.prems obtain j' where j': "py_find sub cs = Some j'" "j = Suc j'"
      by auto
    have nt: "\<not> startswith (take k (c # cs)) sub"
      using False startswith_take_imp [OF Cons.prems(1)] by blast
    from Cons.IH [OF Cons.prems(1) j'(1), of k'] Cons.prems(3) j'(2) k'
    have "py_find sub (take k' cs) = Some j'" by simp
    with nt k' j'(2) show ?thesis by simp
  qed
qed

section \<open>Properties of the extraction\<close>

lemma contains_python_of_marker:
  "py_find fence_python_nl resp = Some i \<Longrightarrow> py_contains fence_python resp"
  using find_some_of_longer [of fence_python "[CHR 0x0A]" resp i]
  by (auto simp: py_contains_def fence_python_nl_def fence_python_def)

lemma marker_none_of_fence_none:
  "py_find fence s = None \<Longrightarrow> py_find fence_python_nl s = None"
  using find_none_of_shorter [of fence s "''python'' @ [CHR 0x0A]"]
  by (simp add: fence_def fence_python_nl_def)

lemma split_marker:
  assumes "py_find fence_python_nl resp = Some i"
  shows "py_split fence_python_nl resp =
         take i resp # split_from fence_python_nl [] (after_marker i resp)"
  using split_from_some [OF _ assms, of "[]"]
  by (simp add: py_split_def after_marker_def fence_python_nl_def)

lemma extract_code_unmarked:
  "\<not> py_contains fence_python resp \<Longrightarrow> extract_code resp = Inr (py_strip resp)"
  by (simp add: extract_code_def)

lemma extract_code_open:
  assumes m: "py_find fence_python_nl resp = Some i"
    and f: "py_find fence (after_marker i resp) = None"
  shows "extract_code resp = Inr (py_strip (after_marker i resp))"
proof -
  have fne: "fence \<noteq> []" and mne: "fence_python_nl \<noteq> []"
    by (simp_all add: fence_def fence_python_nl_def)
  have "split_from fence_python_nl [] (after_marker i resp) = [after_marker i resp]"
    using split_from_none [OF mne marker_none_of_fence_none [OF f], of "[]"] by simp
  moreover have "py_split fence (after_marker i resp) = [after_marker i resp]"
    using split_from_none [OF fne f, of "[]"] by (simp add: py_split_def)
  ultimately show ?thesis
    using contains_python_of_marker [OF m] split_marker [OF m]
    by (simp add: extract_code_def)
qed

lemma extract_code_closed:
  assumes m: "py_find fence_python_nl resp = Some i"
    and f: "py_find fence (after_marker i resp) = Some j"
    and later: "\<And>k. py_find fence_python_nl (after_marker i resp) = Some k
                  \<Longrightarrow> j + length fence \<le> k"
  shows "extract_code resp = Inr (py_strip (take j (after_marker i resp)))"
proof -
  let ?rest = "after_marker i resp"
  have fne: "fence \<noteq> []" and mne: "fence_python_nl \<noteq> []"
    by (simp_all add: fence_def fence_python_nl_def)
  have "\<exists>p ps qs. split_from fence_python_nl [] ?rest = p # ps
          \<and> py_split fence p = take j ?rest # qs"
  proof (cases "py_find fence_python_nl ?rest")
    case None
    then have "split_from fence_python_nl [] ?rest = [?rest]"
      using split_from_none [OF mne, of ?rest "[]"] by simp
    moreover obtain qs where "py_split fence ?rest = take j ?rest # qs"
      using first_piece [OF fne f] by (auto simp: py_split_def)
    ultimately show ?thesis by blast
  next
    case (Some k)
    then obtain ps where ps: "split_from fence_python_nl [] ?rest = take k ?rest # ps"
      using first_piece [OF mne] by blast
    have jk: "j + length fence \<le> k" using later [OF Some] .
    then have "py_find fence (take k ?rest) = Some j"
      using find_take [OF fne f] by simp
    then obtain qs where "py_split fence (take k ?rest) = take j (take k ?rest) # qs"
      unfolding py_split_def using first_piece [OF fne] by blast
    moreover have "take j (take k ?rest) = take j ?rest"
      using jk by (simp add: min_def)
    ultimately show ?thesis using ps by auto
  qed
  then show ?thesis
    using contains_python_of_marker [OF m] split_marker [OF m]
    by (auto simp: extract_code_def)
qed

text \<open>
  Claim C4, as amended. The extraction recognises only the marker \<^verbatim>\<open>```python\<close> followed by a
  newline. A response without \<^verbatim>\<open>```python\<close> is taken whole, trimmed. A response with the
  marker gives the trimmed text between the first marker and the next \<^verbatim>\<open>```\<close> behind it
  (a further marker, if any, starting only behind that closing fence), or the trimmed text
  up to the end of the response when no \<^verbatim>\<open>```\<close> follows.
\<close>

theorem extract_code_python_block:
  "(\<not> py_contains fence_python resp \<longrightarrow> extract_code resp = Inr (py_strip resp)) \<and>
   (\<forall>i j. py_find fence_python_nl resp = Some i \<and>
          py_find fence (after_marker i resp) = Some j \<and>
          (\<forall>k. py_find fence_python_nl (after_marker i resp) = Some k
                 \<longrightarrow> j + length fence \<le> k)
          \<longrightarrow> extract_code resp = Inr (py_strip (take j (after_marker i resp)))) \<and>
   (\<forall>i. py_find fence_python_nl resp = Some i \<and> py_find fence (after_marker i resp) = None
          \<longrightarrow> extract_code resp = Inr (py_strip (after_marker i resp)))"
  using extract_code_unmarked extract_code_open extract_code_closed by blast

theorem extract_code_python_block_witness:
  "py_find fence_python_nl sample_response = Some 6 \<and>
   py_find fence (after_marker 6 sample_response) = Some 8 \<and>
   py_find fence_python_nl (after_marker 6 sample_response) = None \<and>
   extract_code sample_response = Inr ''x = 1''"
proof -
  have m: "py_find fence_python_nl sample_response = Some 6"
    by (simp add: sample_response_def fence_python_nl_def startswith_def)
  have r: "after_marker 6 sample_response = '' x = 1 '' @ [CHR 0x0A] @ ''```'' @ '' done''"
    by (simp add: after_marker_def sample_response_def fence_python_nl_def)
  have f: "py_find fence (after_marker 6 sample_response) = Some 8"
    unfolding r by (simp add: fence_def startswith_def)
  have n: "py_find fence_python_nl (after_marker 6 sample_response) = None"
    unfolding r by (simp add: fence_python_nl_def startswith_def)
  from extract_code_python_block [of sample_response] m f n
  have "extract_code sample_response
          = Inr (py_strip (take 8 (after_marker 6 sample_response)))"
    by simp
  also have "py_strip (take 8 (after_marker 6 sample_response)) = ''x = 1''"
    unfolding r by (simp add: py_strip_def py_isspace_def)
  finally show ?thesis using m f n by simp
qed

text \<open>
  Claim C4 as stated fails: a fenced block without the \<^verbatim>\<open>python\<close> tag is embedded in the
  response, yet the extraction returns the whole response, fences included, and not the
  block's content.
\<close>

theorem extract_code_plain_fence_counterexample:
  "spec_first_fenced_block plain_fence_response = Some (''x = 1'' @ [CHR 0x0A]) \<and>
   extract_code plain_fence_response = Inr plain_fence_response \<and>
   extract_code plain_fence_response \<noteq> Inr (''x = 1'' @ [CHR 0x0A])"
  by (simp add: spec_first_fenced_block_def extract_code_def plain_fence_response_def
      py_split_def py_contains_def fence_def fence_python_def startswith_def
      py_strip_def py_isspace_def)

text \<open>
  A response that holds \<^verbatim>\<open>```python\<close> without a newline behind it: the split has a single
  piece, the index raises, and \<^verbatim>\<open>run\<close> logs the attempt as failed by an unexpected error.
\<close>

lemma extract_code_marker_without_newline:
  "extract_code ''```python print(1)```'' = Inl (Exception ''IndexError'')"
  by (simp add: extract_code_def py_contains_def py_split_def fence_python_def
      fence_python_nl_def startswith_def)

section \<open>The harness on blank code\<close>

lemma strip_blank: "(\<forall>c\<in>set code. py_isspace c) \<Longrightarrow> py_strip code = []"
proof -
  assume "\<forall>c\<in>set code. py_isspace c"
  then have "dropWhile py_isspace code = []" by (induction code) auto
  then show ?thesis unfolding py_strip_def by (simp only: rev.simps dropWhile.simps)
qed

text \<open>
  Claim C7. For code that is empty or holds only whitespace the harness returns the failure
  of line 58 at once: the state is the one it was called in (no random name drawn, no
  module object created, nothing entered into \<^verbatim>\<open>sys.modules\<close>, no file written), and the
  result does not depend on the collaborators, so the code was neither executed nor
  invoked.
\<close>

theorem blank_code_not_executed:
  "\<forall>c\<in>set code. py_isspace c \<Longrightarrow>
   execute_and_test_code a e code w = (Inr (False, Empty_code), w)"
  by (simp add: execute_and_test_code_def strip_blank)

theorem blank_code_not_executed_witness:
  "execute_and_test_code icici offline_env ('' '' @ [CHR 0x0A, CHR 0x09]) empty_world
     = (Inr (False, Empty_code), empty_world)"
  using blank_code_not_executed [of "'' '' @ [CHR 0x0A, CHR 0x09]" icici offline_env empty_world]
  by (simp add: py_isspace_def)

section \<open>Missing input files\<close>



section \<open>Constructing the agent\<close>

lemma init_fs:
  "fs (snd (init t w)) =
     (\<lambda>p. if p \<in> {''output'', ''custom_parsers''} \<and> fs w p = None then Some Dir
          else if p = ''custom_parsers/__init__.py'' \<and> fs w p = None then Some (File (Text []))
          else fs w p)"
  by (auto simp: init_def Let_def mkdir_exist_ok_def touch_def joinpath_def fun_eq_iff)

lemma init_frame:
  "log (snd (init t w)) = log w" "journal (snd (init t w)) = journal w"
  by (simp_all add: init_def Let_def mkdir_exist_ok_def touch_def)





section \<open>What one attempt does\<close>






section \<open>What the loop does\<close>

lemma attempts_logged_simps [simp]:
  "attempts_logged [] = []"
  "attempts_logged (x # xs) =
     (case attempt_ordinal x of None \<Rightarrow> attempts_logged xs | Some k \<Rightarrow> k # attempts_logged xs)"
  "attempts_logged (xs @ ys) = attempts_logged xs @ attempts_logged ys"
  by (simp_all add: attempts_logged_def map_filter_def split: option.splits)





lemma ordinals: "[1..<MAX_ATTEMPTS + 1] = [1, 2, 3]"
  by (simp add: MAX_ATTEMPTS_def upt_rec)



section \<open>The sample inputs evaluated\<close>

lemma icici_fields:
  "target icici = ''icici''" "pdf_path icici = ''data/icici/icici_sample.pdf''"
  "csv_path icici = ''data/icici/icici_sample.csv''"
  "output_path icici = ''output/icici_output.csv''"
  "parser_path icici = ''custom_parsers/icici_parser.py''"
  by (simp_all add: icici_def init_def Let_def joinpath_def output_path_def parser_path_def)

lemma ready_world_fields:
  "fs ready_world ''data/icici/icici_sample.pdf'' = Some (File (Text ''%PDF''))"
  "fs ready_world ''data/icici/icici_sample.csv'' = Some (File (Text ''Date,...''))"
  "log ready_world = []" "journal ready_world = []" "sys_modules ready_world = Map.empty"
  "heap ready_world = Map.empty" "next_id ready_world = 0" "urandom_calls ready_world = 0"
  by (simp_all add: ready_world_def inputs_world_def init_fs init_frame empty_world_def)
     (simp_all add: init_def Let_def mkdir_exist_ok_def touch_def)

lemma matching_fields:
  "generate_content matching_env k p = Inr ''import pandas as pd''"
  "exec_code matching_env n c = Inr (Some (\<lambda>_. Inr (Frame sample_reference)))"
  "read_csv matching_env q = Inr sample_reference"
  "to_numeric matching_env = (\<lambda>c. c)"
  "urandom_hex matching_env i = (if i = 0 then ''9f3a01bc'' else ''00c0ffee'')"
  by (simp_all add: matching_env_def)

lemma sample_load_reference:
  "read_csv e = read_csv matching_env \<Longrightarrow> to_numeric e = to_numeric matching_env \<Longrightarrow>
   load_reference icici e = Inr sample_reference"
  by (simp add: load_reference_def matching_fields amount_columns_def get_column_def
      set_column_def sample_reference_def)





section \<open>The loop stops at the first success\<close>



section \<open>A run whose attempts all fail\<close>

text \<open>
  The failures an attempt ends in without leaving the loop: an error of the generator, code
  that is empty after the extraction, and a failure reported by the harness, such as the
  execution error of line 67 or the mismatch of line 78.
\<close>

lemma generator_error_fails:
  "generate_prompt a e = Inr p \<Longrightarrow> generate_content e k p = Inl (Exception x) \<Longrightarrow>
   fst (attempt a e k w) = Inr False"
  by (simp add: attempt_def attempt_body_def)

lemma empty_code_fails:
  "generate_prompt a e = Inr p \<Longrightarrow> generate_content e k p = Inr resp \<Longrightarrow>
   extract_code resp = Inr code \<Longrightarrow> \<forall>c\<in>set code. py_isspace c \<Longrightarrow>
   fst (attempt a e k w) = Inr False"
  by (simp add: attempt_def attempt_body_def execute_and_test_code_def strip_blank)

lemma harness_failure_fails:
  "generate_prompt a e = Inr p \<Longrightarrow> generate_content e k p = Inr resp \<Longrightarrow>
   extract_code resp = Inr code \<Longrightarrow>
   fst (execute_and_test_code a e code (logging (Info_attempt k MAX_ATTEMPTS) w)) = Inr (False, m) \<Longrightarrow>
   fst (attempt a e k w) = Inr False"
  by (cases "execute_and_test_code a e code (logging (Info_attempt k MAX_ATTEMPTS) w)")
     (simp add: attempt_def attempt_body_def)

lemma execution_error_fails:
  "\<not> (code = [] \<or> py_strip code = []) \<Longrightarrow>
   exec_code e (mod_name a (urandom_hex e (urandom_calls w))) code = Inl (Exception x) \<Longrightarrow>
   fst (execute_and_test_code a e code w) = Inr (False, Execution_failed x)"
  by (simp add: execute_and_test_code_def load_and_parse_def Let_def)


lemma no_key_attempt:
  "attempt icici no_key_env k w
     = (Inr False,
        w\<lparr>log := log w @ [Info_attempt k 3, Error_unexpected k ''DefaultCredentialsError'']\<rparr>)"
  by (simp add: attempt_def attempt_body_def generate_prompt_def no_key_env_def
      matching_fields logging_def MAX_ATTEMPTS_def)



section \<open>The namespace of an attempt\<close>







section \<open>The validation\<close>







lemma range_index_eq:
  "map (\<lambda>i. L_int (int i)) [0..<m] = map (\<lambda>i. L_int (int i)) [0..<n] \<longleftrightarrow> m = n"
proof
  assume "map (\<lambda>i. L_int (int i)) [0..<m] = map (\<lambda>i. L_int (int i)) [0..<n]"
  then have "length (map (\<lambda>i. L_int (int i)) [0..<m]) = length (map (\<lambda>i. L_int (int i)) [0..<n])"
    by (rule arg_cong)
  then show "m = n" by simp
qed simp

lemma df_equals_reset:
  "df_equals (reset_index p) (reset_index r) \<longleftrightarrow>
     labels p = labels r \<and> nrows p = nrows r \<and> list_all2 array_equals (arrays p) (arrays r)"
  by (simp add: df_equals_def reset_index_def labels_def arrays_def nrows_def range_index_eq)


lemma dtype_differs:
  assumes "i < length (arrays p)" "i < length (arrays r)"
    and "dtype_of (arrays p ! i) \<noteq> dtype_of (arrays r ! i)"
  shows "\<not> df_equals (reset_index p) (reset_index r)"
proof
  assume "df_equals (reset_index p) (reset_index r)"
  then have "list_all2 array_equals (arrays p) (arrays r)"
    by (simp add: df_equals_reset)
  with assms(1) have "array_equals (arrays p ! i) (arrays r ! i)"
    by (simp add: list_all2_conv_all_nth)
  with assms(3) show False
    by (simp add: array_equals_def)
qed

text \<open>Row order matters: the cells are compared position by position.\<close>

lemma permuted_rows_differ:
  "\<not> df_equals (reset_index two_rows_swapped) (reset_index two_rows)"
  by (simp add: df_equals_reset arrays_def two_rows_def two_rows_swapped_def
      array_equals_def f64_eq_def)




text \<open>
  Claim C10. A produced frame one of whose columns has another dtype than the reference's
  column at that position is a mismatch, whatever its cell values; nothing is exported.
\<close>

theorem dtype_mismatch:
  "load_reference a e = Inr r \<Longrightarrow> i < length (arrays p) \<Longrightarrow> i < length (arrays r) \<Longrightarrow>
   dtype_of (arrays p ! i) \<noteq> dtype_of (arrays r ! i) \<Longrightarrow>
   test_output a e (Frame p) w = (Inr (False, Data_mismatch), w)"
  by (simp add: test_output_def dtype_differs)

theorem dtype_mismatch_witness:
  "dtype_of (arrays int_balance_frame ! 4) = D_int64 \<and>
   dtype_of (arrays sample_reference ! 4) = D_float64 \<and>
   spec_same_values int_balance_frame sample_reference \<and>
   test_output icici matching_env (Frame int_balance_frame) ready_world
     = (Inr (False, Data_mismatch), ready_world)"
proof -
  have l: "load_reference icici matching_env = Inr sample_reference"
    by (simp add: sample_load_reference)
  have i: "4 < length (arrays int_balance_frame)" "4 < length (arrays sample_reference)"
    by (simp_all add: arrays_def int_balance_frame_def sample_reference_def)
  have d: "dtype_of (arrays int_balance_frame ! 4) = D_int64"
    "dtype_of (arrays sample_reference ! 4) = D_float64"
    by (simp_all add: arrays_def int_balance_frame_def sample_reference_def)
  have s: "spec_same_values int_balance_frame sample_reference"
    by (simp add: spec_same_values_def labels_def arrays_def nrows_def int_balance_frame_def
        sample_reference_def cell_equal_def f64_eq_def)
  from dtype_mismatch [OF l i, of ready_world] d s show ?thesis
    by simp
qed

section \<open>The start of the module\<close>

lemma startup_exits_iff:
  "fst (startup e environ w) = Inr (Exited n) \<longleftrightarrow>
     n = 1 \<and> (\<exists>x. configure e (environ ''GOOGLE_API_KEY'') = Inl (Exception x))"
  by (auto simp: startup_def split: sum.splits exn.splits)

text \<open>
  Claim C5 at an environment without \<^verbatim>\<open>GOOGLE_API_KEY\<close>: the start of the module does not
  exit. The script goes on to construct the agent and makes all three attempts, each
  failing at the generator call.
\<close>

theorem absent_credential_runs_attempts:
  "fst (startup no_key_env Map.empty inputs_world) = Inr Configured \<and>
   fst (script no_key_env Map.empty [''agent.py'', ''--target'', ''icici''] inputs_world)
     = Inr (Ran Exhausted) \<and>
   attempts_logged
     (log (snd (script no_key_env Map.empty [''agent.py'', ''--target'', ''icici''] inputs_world)))
     = [1, 2, 3]"
proof -
  have s: "startup no_key_env Map.empty inputs_world = (Inr Configured, inputs_world)"
    by (simp add: startup_def no_key_env_def)
  have i: "init ''icici'' inputs_world = (icici, ready_world)"
    by (simp add: icici_def ready_world_def init_def Let_def)
  have r: "run icici no_key_env ready_world =
      run_loop icici no_key_env [1, 2, 3] (logging (Info_starting ''icici'') ready_world)"
    unfolding run_def ordinals
    by (simp add: validate_paths_def path_exists_def icici_fields ready_world_fields)
  have m: "script no_key_env Map.empty [''agent.py'', ''--target'', ''icici''] inputs_world
      = (case run icici no_key_env ready_world of
           (Inl x, w2) \<Rightarrow> (Inl x, w2) | (Inr r, w2) \<Rightarrow> (Inr (Ran r), w2))"
    by (simp add: script_def s main_def i)
  show ?thesis
    unfolding m r by (simp add: s no_key_attempt logging_def ready_world_fields)
qed

end
